theory Spec2Isabelle
  imports Main "HOL-Library.AList"
begin

section \<open>GitPaste: the asset-upload client and the plugin glue\<close>

text \<open>
  A shallow embedding of \<^verbatim>\<open>src/lib/github.ts\<close> (class \<^verbatim>\<open>GitHub\<close>, the variant
  built on the host's \<^verbatim>\<open>requestUrl\<close> and on \<^verbatim>\<open>payloadGenerator\<close>), of the inline
  multipart assembly of the older variants of the same class, and of the plugin's
  \<^verbatim>\<open>handleImagePaste\<close> and vault \<^verbatim>\<open>create\<close> handler.

  JavaScript strings and binary buffers are both modelled as byte sequences (a string is
  its UTF-8 encoding), numbers as integers, \<^verbatim>\<open>null\<close>/\<^verbatim>\<open>undefined\<close> as \<open>None\<close>.
  An asynchronous call chain is sequential, so \<^verbatim>\<open>await\<close> is function application.
\<close>

subsection \<open>JavaScript values the client relies on\<close>

text \<open>Thrown values: every \<^verbatim>\<open>throw\<close> of the source is \<^verbatim>\<open>new Error(message)\<close>; a method
  call on \<^verbatim>\<open>undefined\<close> throws a \<^verbatim>\<open>TypeError\<close>, a write past the end of a typed array
  a \<^verbatim>\<open>RangeError\<close>.\<close>

datatype js_error = Error string | TypeError string | RangeError string

text \<open>\<^verbatim>\<open>`${error}`\<close>, that is \<^verbatim>\<open>Error.prototype.toString\<close>.\<close>

fun to_string :: "js_error \<Rightarrow> string" where
  "to_string (Error m) = (if m = [] then ''Error'' else ''Error: '' @ m)"
| "to_string (TypeError m) = (if m = [] then ''TypeError'' else ''TypeError: '' @ m)"
| "to_string (RangeError m) = (if m = [] then ''RangeError'' else ''RangeError: '' @ m)"

fun message :: "js_error \<Rightarrow> string" where
  "message (Error m) = m"
| "message (TypeError m) = m"
| "message (RangeError m) = m"

text \<open>\<^verbatim>\<open>Number.prototype.toString\<close> on an integer: its decimal digits.\<close>

definition digit_char :: "nat \<Rightarrow> char" where
  "digit_char d = ''0123456789'' ! d"

fun digits :: "nat \<Rightarrow> string" where
  "digits n = (if n < 10 then [digit_char n] else digits (n div 10) @ [digit_char (n mod 10)])"

declare digits.simps [simp del]

definition Number_toString :: "int \<Rightarrow> string" where
  "Number_toString i = (if i < 0 then CHR ''-'' # digits (nat (- i)) else digits (nat i))"

text \<open>Truthiness of a \<^verbatim>\<open>number | null\<close>: \<^verbatim>\<open>null\<close>, \<^verbatim>\<open>undefined\<close> and \<^verbatim>\<open>0\<close> are falsy.\<close>

definition truthy :: "int option \<Rightarrow> bool" where
  "truthy v = (case v of None \<Rightarrow> False | Some n \<Rightarrow> n \<noteq> 0)"

text \<open>\<^verbatim>\<open>s || d\<close> on a string that may be \<^verbatim>\<open>undefined\<close> or \<^verbatim>\<open>false\<close>: the empty string is
  falsy too.\<close>

definition or_else :: "string option \<Rightarrow> string \<Rightarrow> string" where
  "or_else v d = (case v of None \<Rightarrow> d | Some s \<Rightarrow> if s = [] then d else s)"

text \<open>\<^verbatim>\<open>String.prototype.toLowerCase\<close> on the ASCII letters.\<close>

definition to_lower :: "char \<Rightarrow> char" where
  "to_lower c =
     (case map_of (zip ''ABCDEFGHIJKLMNOPQRSTUVWXYZ'' ''abcdefghijklmnopqrstuvwxyz'') c of
        None \<Rightarrow> c
      | Some l \<Rightarrow> l)"

text \<open>
  The order in which \<^verbatim>\<open>Object.entries\<close> and the object spread enumerate the own
  properties of an object (ECMAScript \<^verbatim>\<open>OrdinaryOwnPropertyKeys\<close>): the keys that are
  array indices (canonical decimal numerals below \<open>2^32 - 1\<close>) first, in ascending
  numeric order, then every other string key in the order the properties were created.
  An object is modelled as the list of its properties in creation order.
\<close>

definition is_digit :: "char \<Rightarrow> bool" where
  "is_digit c = (c \<in> set ''0123456789'')"

fun index_value :: "string \<Rightarrow> nat" where
  "index_value k = foldl (\<lambda>n c. 10 * n + (of_char c - 48)) 0 k"

definition is_array_index :: "string \<Rightarrow> bool" where
  "is_array_index k =
     (k \<noteq> [] \<and> list_all is_digit k \<and> (k = ''0'' \<or> hd k \<noteq> CHR ''0'')
      \<and> index_value k < 4294967295)"

definition Object_entries :: "(string \<times> 'v) list \<Rightarrow> (string \<times> 'v) list" where
  "Object_entries obj =
     sort_key (\<lambda>kv. index_value (fst kv)) (filter (\<lambda>kv. is_array_index (fst kv)) obj)
     @ filter (\<lambda>kv. \<not> is_array_index (fst kv)) obj"

subsection \<open>Node's \<^verbatim>\<open>path.extname\<close> and the \<^verbatim>\<open>mime-types\<close> lookup\<close>

text \<open>The last segment of a path: trailing slashes dropped, then everything after the
  last remaining slash.\<close>

definition last_segment :: "string \<Rightarrow> string" where
  "last_segment p =
     rev (takeWhile (\<lambda>c. c \<noteq> CHR ''/'') (dropWhile (\<lambda>c. c = CHR ''/'') (rev p)))"

text \<open>
  \<^verbatim>\<open>path.extname\<close> (POSIX flavour): from the last dot of the last segment to its end;
  empty when the segment has no dot, when its only dot is its first character, or when
  the segment is \<^verbatim>\<open>..\<close>.
\<close>

definition extname :: "string \<Rightarrow> string" where
  "extname p =
     (let base = last_segment p;
          after = rev (takeWhile (\<lambda>c. c \<noteq> CHR ''.'') (rev base));
          before = take (length base - length after - 1) base
      in if CHR ''.'' \<notin> set base then []
         else if before = [] then []
         else if base = ''..'' then []
         else CHR ''.'' # after)"

text \<open>
  \<^verbatim>\<open>mime.lookup(path)\<close> of the \<^verbatim>\<open>mime-types\<close> package: \<^verbatim>\<open>false\<close> for an empty path,
  otherwise the table entry of the lower-cased extension of \<^verbatim>\<open>'x.' + path\<close>, or
  \<^verbatim>\<open>false\<close>. The package's extension table is not part of the repository and is a
  parameter. \<^verbatim>\<open>false\<close> is \<open>None\<close>.
\<close>

definition mime_lookup :: "(string \<rightharpoonup> string) \<Rightarrow> string \<Rightarrow> string option" where
  "mime_lookup types p =
     (if p = [] then None
      else let extension = drop 1 (map to_lower (extname (''x.'' @ p)))
           in if extension = [] then None
              else (case types extension of
                      None \<Rightarrow> None
                    | Some t \<Rightarrow> if t = [] then None else Some t))"

subsection \<open>\<^verbatim>\<open>URLSearchParams\<close>\<close>

text \<open>The \<^verbatim>\<open>application/x-www-form-urlencoded\<close> serializer behind
  \<^verbatim>\<open>URLSearchParams.toString\<close>: letters, digits and \<^verbatim>\<open>*-._\<close> stay, a space becomes
  \<^verbatim>\<open>+\<close>, every other byte becomes \<^verbatim>\<open>%HH\<close>.\<close>

definition hex_char :: "nat \<Rightarrow> char" where
  "hex_char d = ''0123456789ABCDEF'' ! d"

definition url_safe :: "char \<Rightarrow> bool" where
  "url_safe c =
     (c \<in> set ''ABCDEFGHIJKLMNOPQRSTUVWXYZabcdefghijklmnopqrstuvwxyz0123456789*-._'')"

definition urlencode_byte :: "char \<Rightarrow> string" where
  "urlencode_byte c =
     (if url_safe c then [c]
      else if c = CHR '' '' then ''+''
      else [CHR ''%'', hex_char (of_char c div 16), hex_char (of_char c mod 16)])"

definition urlencode :: "string \<Rightarrow> string" where
  "urlencode s = concat (map urlencode_byte s)"

fun join :: "string \<Rightarrow> string list \<Rightarrow> string" where
  "join sep [] = []"
| "join sep [x] = x"
| "join sep (x # y # ys) = x @ sep @ join sep (y # ys)"

definition URLSearchParams_toString :: "(string \<times> string) list \<Rightarrow> string" where
  "URLSearchParams_toString params =
     join ''&'' (map (\<lambda>kv. urlencode (fst kv) @ ''='' @ urlencode (snd kv)) params)"

subsection \<open>The data model of \<^verbatim>\<open>lib/github.ts\<close>\<close>

text \<open>\<^verbatim>\<open>UploadPolicy.asset\<close>; the fields \<^verbatim>\<open>id\<close>, \<^verbatim>\<open>name\<close>, \<^verbatim>\<open>size\<close> and
  \<^verbatim>\<open>content_type\<close> carry the prefix \<open>asset_\<close> here.\<close>

record asset =
  asset_id :: int
  asset_name :: string
  asset_size :: int
  asset_content_type :: string
  href :: string
  original_name :: string

text \<open>\<^verbatim>\<open>interface UploadPolicy\<close>. The field \<^verbatim>\<open>header: any\<close> is never read and is left out.
  \<open>form\<close> is the object \<^verbatim>\<open>Record<string, string>\<close>, its properties in creation order.\<close>

record UploadPolicy =
  upload_url :: string
  upload_authenticity_token :: string
  asset_upload_url :: string
  asset_upload_authenticity_token :: string
  asset :: asset
  form :: "(string \<times> string) list"
  same_origin :: bool

record UploadResult =
  githubLink :: string
  awsLink :: string

text \<open>A browser \<^verbatim>\<open>File\<close>: \<^verbatim>\<open>name\<close>, \<^verbatim>\<open>size\<close>, \<^verbatim>\<open>type\<close> and the bytes that
  \<^verbatim>\<open>arrayBuffer()\<close> yields.\<close>

record File =
  file_name :: string
  file_size :: int
  file_type :: string
  file_bytes :: string

text \<open>
  The fields of \<^verbatim>\<open>class GitHub\<close> that the methods read or write: \<^verbatim>\<open>repo\<close>,
  \<^verbatim>\<open>repoId\<close> and \<^verbatim>\<open>userSession\<close>. The fourth field of the class, \<^verbatim>\<open>client\<close> (the axios
  instance with its cookie jar), is assigned once in the constructor and is not used by
  the \<^verbatim>\<open>requestUrl\<close> methods. The class has no other field.
\<close>

record GitHub =
  repo :: string
  repoId :: "int option"
  userSession :: string

subsection \<open>The host: \<^verbatim>\<open>requestUrl\<close>, \<^verbatim>\<open>payloadGenerator\<close>, the MIME table\<close>

text \<open>The argument of \<^verbatim>\<open>requestUrl\<close> (\<^verbatim>\<open>RequestUrlParam\<close>).\<close>

record request =
  url :: string
  http_method :: string
  headers :: "(string \<times> string) list"
  contentType :: "string option"
  body :: "string option"

text \<open>
  What the client reads of a \<^verbatim>\<open>RequestUrlResponse\<close>: \<^verbatim>\<open>status\<close>,
  \<^verbatim>\<open>headers.location\<close>, \<^verbatim>\<open>text\<close> (here \<open>text_body\<close>), and \<^verbatim>\<open>json\<close> at the two types
  it is read at: \<^verbatim>\<open>json.id\<close> of the repository metadata (\<open>None\<close> when the object has
  no \<^verbatim>\<open>id\<close>) and \<^verbatim>\<open>json\<close> as an \<^verbatim>\<open>UploadPolicy\<close>. A body that does not parse
  makes \<^verbatim>\<open>response.json\<close> throw inside the same \<^verbatim>\<open>try\<close> block as the request, and is
  a throwing request in this model.
\<close>

record response =
  status :: int
  location :: "string option"
  text_body :: string
  json_id :: "int option"
  json_policy :: UploadPolicy

text \<open>One value of the object handed to \<^verbatim>\<open>payloadGenerator\<close>: a form field or the file.\<close>

datatype payload_value = Field string | FilePart File

text \<open>
  The collaborators outside the repository's sources. \<open>requestUrl\<close> is the host
  application's HTTP call: it returns a response or throws (which statuses make it
  throw is the host's choice). \<open>payloadGenerator\<close> is \<^verbatim>\<open>lib/payload-gen\<close>, which is
  not among the sources: it returns the request body and the boundary string, or throws.
  \<open>mime_types\<close> is the extension table of \<^verbatim>\<open>mime-types\<close>. \<open>random_token\<close> is the value
  of \<^verbatim>\<open>Math.random().toString(36).substring(2)\<close>.
\<close>

record host =
  requestUrl :: "request \<Rightarrow> js_error + response"
  payloadGenerator :: "(string \<times> payload_value) list \<Rightarrow> js_error + string \<times> string"
  mime_types :: "string \<rightharpoonup> string"
  random_token :: string

text \<open>
  What a method call leaves behind: the value it returns or the error it throws
  (\<open>Inl\<close>), the object \<^verbatim>\<open>this\<close> after the call, the requests it issued in order, and
  the notices (\<^verbatim>\<open>new Notice(...)\<close>) it showed.
\<close>

record 'a outcome =
  result :: "js_error + 'a"
  client :: GitHub
  requests :: "request list"
  notices :: "string list"

text \<open>\<^verbatim>\<open>catch (error) { throw new Error(`<prefix>${error}`) }\<close>.\<close>

definition rethrow :: "string \<Rightarrow> 'a outcome \<Rightarrow> 'a outcome" where
  "rethrow prefix out =
     (case result out of
        Inl error \<Rightarrow> out\<lparr>result := Inl (Error (prefix @ to_string error))\<rparr>
      | Inr v \<Rightarrow> out)"

subsection \<open>\<^verbatim>\<open>class GitHub\<close>\<close>

text \<open>The constructor; \<open>None\<close> is the omitted second argument.\<close>

definition GitHub_constructor :: "string \<Rightarrow> string option \<Rightarrow> GitHub" where
  "GitHub_constructor session repo_arg =
     (let r = or_else (Some (case repo_arg of None \<Rightarrow> ''cli/cli'' | Some x \<Rightarrow> x)) ''cli/cli''
      in \<lparr>repo = r,
          repoId = (if r = ''cli/cli'' then Some 212613049 else None),
          userSession = session\<rparr>)"

definition repo_request :: "GitHub \<Rightarrow> request" where
  "repo_request this =
     \<lparr>url = ''https://api.github.com/repos/'' @ repo this, http_method = ''GET'',
      headers = [], contentType = None, body = None\<rparr>"

definition getRepoId :: "host \<Rightarrow> GitHub \<Rightarrow> (int option) outcome" where
  "getRepoId h this =
     (if truthy (repoId this)
      then \<lparr>result = Inr (repoId this), client = this, requests = [], notices = []\<rparr>
      else rethrow ''Failed to get repo ID: ''
        (case requestUrl h (repo_request this) of
           Inl error \<Rightarrow>
             \<lparr>result = Inl error, client = this,
              requests = [repo_request this], notices = []\<rparr>
         | Inr response \<Rightarrow>
             \<lparr>result = Inr (json_id response), client = this\<lparr>repoId := json_id response\<rparr>,
              requests = [repo_request this], notices = []\<rparr>))"

definition cookie :: "GitHub \<Rightarrow> string" where
  "cookie this =
     ''user_session='' @ userSession this @ ''; __Host-user_session_same_site=''
     @ userSession this @ '';''"

definition policy_request :: "GitHub \<Rightarrow> (string \<times> string) list \<Rightarrow> request" where
  "policy_request this formData =
     \<lparr>url = ''https://github.com/upload/policies/assets'', http_method = ''POST'',
      headers = [(''Github-Verified-Fetch'', ''true''), (''Origin'', ''https://github.com''),
                 (''Content-Type'', ''application/x-www-form-urlencoded''),
                 (''Cookie'', cookie this)],
      contentType = None, body = Some (URLSearchParams_toString formData)\<rparr>"

definition session_expired_notice :: string where
  "session_expired_notice = ''GitPaste: Your Github session is expired. Add again''"

text \<open>The \<^verbatim>\<open>try\<close> block of \<^verbatim>\<open>getPolicy\<close>.\<close>

definition getPolicy_try :: "host \<Rightarrow> GitHub \<Rightarrow> (string \<times> string) list \<Rightarrow> UploadPolicy outcome" where
  "getPolicy_try h this formData =
     (case requestUrl h (policy_request this formData) of
        Inl error \<Rightarrow>
          \<lparr>result = Inl error, client = this,
           requests = [policy_request this formData], notices = []\<rparr>
      | Inr response \<Rightarrow>
          if status response \<noteq> 201
          then \<lparr>result = Inl (Error (''Failed to get upload policy: '' @ text_body response)),
                client = this, requests = [policy_request this formData],
                notices = [session_expired_notice]\<rparr>
          else \<lparr>result = Inr (json_policy response), client = this,
                requests = [policy_request this formData], notices = []\<rparr>)"

definition undefined_toString :: js_error where
  "undefined_toString = TypeError ''Cannot read properties of undefined (reading 'toString')''"

definition getPolicy :: "host \<Rightarrow> GitHub \<Rightarrow> string \<Rightarrow> int \<Rightarrow> string \<Rightarrow> UploadPolicy outcome" where
  "getPolicy h this0 name size0 content_type =
     (let r = (if \<not> truthy (repoId this0) then getRepoId h this0
               else \<lparr>result = Inr None, client = this0, requests = [], notices = []\<rparr>);
          this = client r
      in case result r of
           Inl error \<Rightarrow>
             \<lparr>result = Inl error, client = this, requests = requests r, notices = notices r\<rparr>
         | Inr _ \<Rightarrow>
             (case repoId this of
                None \<Rightarrow>
                  \<lparr>result = Inl undefined_toString, client = this,
                   requests = requests r, notices = notices r\<rparr>
              | Some rid \<Rightarrow>
                  (let formData = [(''repository_id'', Number_toString rid), (''name'', name),
                                   (''size'', Number_toString size0),
                                   (''content_type'', content_type)];
                       p = rethrow ''Failed to get upload policy: '' (getPolicy_try h this formData)
                   in p\<lparr>requests := requests r @ requests p,
                        notices := notices r @ notices p\<rparr>)))"

definition complete_request :: "GitHub \<Rightarrow> UploadPolicy \<Rightarrow> request" where
  "complete_request this policy =
     \<lparr>url = ''https://github.com'' @ asset_upload_url policy, http_method = ''PUT'',
      headers = [(''Content-Type'', ''application/x-www-form-urlencoded''),
                 (''Cookie'', cookie this)],
      contentType = None,
      body = Some (URLSearchParams_toString
                     [(''authenticity_token'', asset_upload_authenticity_token policy)])\<rparr>"

definition markUploadComplete :: "host \<Rightarrow> GitHub \<Rightarrow> UploadPolicy \<Rightarrow> unit outcome" where
  "markUploadComplete h this policy =
     rethrow ''Failed to mark upload as complete: ''
       (case requestUrl h (complete_request this policy) of
          Inl error \<Rightarrow>
            \<lparr>result = Inl error, client = this,
             requests = [complete_request this policy], notices = []\<rparr>
        | Inr response \<Rightarrow>
            \<lparr>result = Inr (), client = this,
             requests = [complete_request this policy], notices = []\<rparr>)"

text \<open>\<^verbatim>\<open>{...policy.form, file: file}\<close>: the fields in enumeration order; \<^verbatim>\<open>file\<close> replaces
  a field of that name in place and is appended otherwise.\<close>

definition payload_data :: "UploadPolicy \<Rightarrow> File \<Rightarrow> (string \<times> payload_value) list" where
  "payload_data policy file =
     AList.update ''file'' (FilePart file)
       (map (\<lambda>kv. (fst kv, Field (snd kv))) (Object_entries (form policy)))"

definition upload_request :: "UploadPolicy \<Rightarrow> string \<Rightarrow> string \<Rightarrow> request" where
  "upload_request policy request_body boundary_string =
     \<lparr>url = upload_url policy, http_method = ''POST'',
      headers = [(''contentType'', ''multipart/form-data; boundary=----'' @ boundary_string),
                 (''Accept'', ''*/*'')],
      contentType = Some (''multipart/form-data; boundary=----'' @ boundary_string),
      body = Some request_body\<rparr>"

text \<open>The \<^verbatim>\<open>try\<close> block of \<^verbatim>\<open>upload\<close>.\<close>

definition upload_try :: "host \<Rightarrow> GitHub \<Rightarrow> UploadPolicy \<Rightarrow> File \<Rightarrow> UploadResult outcome" where
  "upload_try h this policy file =
     (case payloadGenerator h (payload_data policy file) of
        Inl error \<Rightarrow> \<lparr>result = Inl error, client = this, requests = [], notices = []\<rparr>
      | Inr (request_body, boundary_string) \<Rightarrow>
          (let rq = upload_request policy request_body boundary_string
           in case requestUrl h rq of
                Inl error \<Rightarrow>
                  \<lparr>result = Inl error, client = this, requests = [rq], notices = []\<rparr>
              | Inr response \<Rightarrow>
                  if status response \<notin> {201, 204}
                  then \<lparr>result = Inl (Error (''Upload failed with status: ''
                                              @ Number_toString (status response))),
                        client = this, requests = [rq], notices = []\<rparr>
                  else (let awsLink = or_else (location response) [];
                            c = markUploadComplete h this policy
                        in case result c of
                             Inl error \<Rightarrow>
                               \<lparr>result = Inl error, client = client c,
                                requests = rq # requests c, notices = notices c\<rparr>
                           | Inr _ \<Rightarrow>
                               \<lparr>result = Inr \<lparr>githubLink = href (asset policy),
                                              awsLink = awsLink\<rparr>,
                                client = client c, requests = rq # requests c,
                                notices = notices c\<rparr>)))"

definition content_type_of :: "host \<Rightarrow> string \<Rightarrow> string" where
  "content_type_of h name =
     (let ext = extname name
      in or_else (mime_lookup (mime_types h) ext) ''application/octet-stream'')"

definition upload :: "host \<Rightarrow> GitHub \<Rightarrow> string \<Rightarrow> int \<Rightarrow> File \<Rightarrow> UploadResult outcome" where
  "upload h this name size0 file =
     (let content_type = content_type_of h name;
          p = getPolicy h this name size0 content_type
      in case result p of
           Inl error \<Rightarrow>
             \<lparr>result = Inl error, client = client p, requests = requests p,
              notices = notices p\<rparr>
         | Inr policy \<Rightarrow>
             (let u = rethrow ''Failed to upload file: '' (upload_try h (client p) policy file)
              in u\<lparr>requests := requests p @ requests u,
                   notices := notices p @ notices u\<rparr>))"

subsection \<open>The inline multipart assembly (\<^verbatim>\<open>upload\<close> of the older variant)\<close>

text \<open>
  The variant of the class in \<^verbatim>\<open>src/unnamed/part_000\<close> (and, over axios, the second
  listing of \<^verbatim>\<open>src/lib/github.ts\<close>) builds the multipart body itself; its
  \<^verbatim>\<open>getPolicy\<close> and its \<^verbatim>\<open>upload\<close> check no status.
\<close>

definition CRLF :: string where
  "CRLF = [CHR 0x0D, CHR 0x0A]"

definition dquote :: string where
  "dquote = [CHR 0x22]"

text \<open>\<^verbatim>\<open>target.set(source, offset)\<close> on a \<^verbatim>\<open>Uint8Array\<close>.\<close>

definition Uint8Array_set :: "string \<Rightarrow> string \<Rightarrow> nat \<Rightarrow> js_error + string" where
  "Uint8Array_set target source offset =
     (if offset + length source > length target
      then Inl (RangeError ''offset is out of bounds'')
      else Inr (take offset target @ source @ drop (offset + length source) target))"

text \<open>\<^verbatim>\<open>buffers.forEach(buf => { body.set(buf, offset); offset += buf.length })\<close>.\<close>

fun copy_buffers :: "string list \<Rightarrow> string \<Rightarrow> nat \<Rightarrow> js_error + string" where
  "copy_buffers [] arr offset = Inr arr"
| "copy_buffers (buf # bufs) arr offset =
     (case Uint8Array_set arr buf offset of
        Inl error \<Rightarrow> Inl error
      | Inr arr' \<Rightarrow> copy_buffers bufs arr' (offset + length buf))"

text \<open>One element of \<^verbatim>\<open>parts\<close> for a form field.\<close>

definition field_part :: "string \<Rightarrow> string \<times> string \<Rightarrow> string" where
  "field_part boundary kv =
     (''--'' @ boundary @ CRLF)
     @ (''Content-Disposition: form-data; name='' @ dquote @ fst kv @ dquote @ CRLF @ CRLF)
     @ (snd kv @ CRLF)"

definition multipart_parts ::
  "string \<Rightarrow> (string \<times> string) list \<Rightarrow> string \<Rightarrow> string \<Rightarrow> string \<Rightarrow> string list" where
  "multipart_parts boundary form_fields name content_type fileBuffer =
     map (field_part boundary) (Object_entries form_fields)
     @ [(''--'' @ boundary @ CRLF)
        @ (''Content-Disposition: form-data; name='' @ dquote @ ''file'' @ dquote
           @ ''; filename='' @ dquote @ name @ dquote @ CRLF)
        @ (''Content-Type: '' @ content_type @ CRLF @ CRLF),
        fileBuffer,
        CRLF @ ''--'' @ boundary @ ''--'' @ CRLF]"

text \<open>Lines 168 to 210 of \<^verbatim>\<open>part_000\<close>: the parts, their total length, a zeroed array of
  that length, and the copy loop.\<close>

definition multipart_body ::
  "string \<Rightarrow> (string \<times> string) list \<Rightarrow> string \<Rightarrow> string \<Rightarrow> string \<Rightarrow> js_error + string" where
  "multipart_body boundary form_fields name content_type fileBuffer =
     (let buffers = multipart_parts boundary form_fields name content_type fileBuffer;
          totalLength = foldl (\<lambda>sum buf. sum + length buf) 0 buffers;
          body0 = replicate totalLength (CHR 0x00)
      in copy_buffers buffers body0 0)"

definition boundary_of :: "host \<Rightarrow> string" where
  "boundary_of h = ''----WebKitFormBoundary'' @ random_token h"

definition getPolicy_part_000 ::
  "host \<Rightarrow> GitHub \<Rightarrow> string \<Rightarrow> int \<Rightarrow> string \<Rightarrow> UploadPolicy outcome" where
  "getPolicy_part_000 h this0 name size0 content_type =
     (let r = (if \<not> truthy (repoId this0) then getRepoId h this0
               else \<lparr>result = Inr None, client = this0, requests = [], notices = []\<rparr>);
          this = client r
      in case result r of
           Inl error \<Rightarrow>
             \<lparr>result = Inl error, client = this, requests = requests r, notices = notices r\<rparr>
         | Inr _ \<Rightarrow>
             (case repoId this of
                None \<Rightarrow>
                  \<lparr>result = Inl undefined_toString, client = this,
                   requests = requests r, notices = notices r\<rparr>
              | Some rid \<Rightarrow>
                  (let formData = [(''repository_id'', Number_toString rid), (''name'', name),
                                   (''size'', Number_toString size0),
                                   (''content_type'', content_type)];
                       rq = policy_request this formData
                   in rethrow ''Failed to get upload policy: ''
                        (case requestUrl h rq of
                           Inl error \<Rightarrow>
                             \<lparr>result = Inl error, client = this,
                              requests = requests r @ [rq], notices = notices r\<rparr>
                         | Inr response \<Rightarrow>
                             \<lparr>result = Inr (json_policy response), client = this,
                              requests = requests r @ [rq], notices = notices r\<rparr>))))"

definition upload_request_part_000 :: "GitHub \<Rightarrow> UploadPolicy \<Rightarrow> string \<Rightarrow> string \<Rightarrow> request" where
  "upload_request_part_000 this policy boundary request_body =
     \<lparr>url = upload_url policy, http_method = ''POST'',
      headers = [(''Content-Type'', ''multipart/form-data; boundary='' @ boundary),
                 (''Content-Length'', Number_toString (int (length request_body))),
                 (''Accept'', ''*/*''), (''Connection'', ''keep-alive''),
                 (''Cookie'', cookie this)],
      contentType = None, body = Some request_body\<rparr>"

definition upload_try_part_000 ::
  "host \<Rightarrow> GitHub \<Rightarrow> UploadPolicy \<Rightarrow> string \<Rightarrow> string \<Rightarrow> string \<Rightarrow> UploadResult outcome" where
  "upload_try_part_000 h this policy name content_type fileBuffer =
     (case multipart_body (boundary_of h) (form policy) name content_type fileBuffer of
        Inl error \<Rightarrow> \<lparr>result = Inl error, client = this, requests = [], notices = []\<rparr>
      | Inr request_body \<Rightarrow>
          (let rq = upload_request_part_000 this policy (boundary_of h) request_body
           in case requestUrl h rq of
                Inl error \<Rightarrow>
                  \<lparr>result = Inl error, client = this, requests = [rq], notices = []\<rparr>
              | Inr response \<Rightarrow>
                  (let awsLink = or_else (location response) [];
                       c = markUploadComplete h this policy
                   in case result c of
                        Inl error \<Rightarrow>
                          \<lparr>result = Inl error, client = client c,
                           requests = rq # requests c, notices = notices c\<rparr>
                      | Inr _ \<Rightarrow>
                          \<lparr>result = Inr \<lparr>githubLink = href (asset policy),
                                         awsLink = awsLink\<rparr>,
                           client = client c, requests = rq # requests c,
                           notices = notices c\<rparr>)))"

definition upload_part_000 ::
  "host \<Rightarrow> GitHub \<Rightarrow> string \<Rightarrow> int \<Rightarrow> File \<Rightarrow> UploadResult outcome" where
  "upload_part_000 h this name size0 file =
     (let content_type = content_type_of h name;
          p = getPolicy_part_000 h this name size0 content_type
      in case result p of
           Inl error \<Rightarrow>
             \<lparr>result = Inl error, client = client p, requests = requests p,
              notices = notices p\<rparr>
         | Inr policy \<Rightarrow>
             (let fileBuffer = file_bytes file;
                  u = rethrow ''Failed to upload file: ''
                        (upload_try_part_000 h (client p) policy name content_type fileBuffer)
              in u\<lparr>requests := requests p @ requests u,
                   notices := notices p @ notices u\<rparr>))"

text \<open>
  The multipart format in the words of the specification: for each field
  \<^verbatim>\<open>--boundary CRLF Content-Disposition: form-data; name="<field>" CRLF CRLF <value> CRLF\<close>,
  then the file part, then \<^verbatim>\<open>--boundary-- CRLF\<close>.
\<close>

definition spec_field :: "string \<Rightarrow> string \<times> string \<Rightarrow> string" where
  "spec_field boundary kv =
     ''--'' @ boundary @ CRLF @ ''Content-Disposition: form-data; name='' @ dquote @ fst kv
     @ dquote @ CRLF @ CRLF @ snd kv @ CRLF"

definition spec_multipart ::
  "string \<Rightarrow> (string \<times> string) list \<Rightarrow> string \<Rightarrow> string \<Rightarrow> string \<Rightarrow> string" where
  "spec_multipart boundary form_fields name content_type bytes =
     concat (map (spec_field boundary) form_fields)
     @ ''--'' @ boundary @ CRLF @ ''Content-Disposition: form-data; name='' @ dquote
     @ ''file'' @ dquote @ ''; filename='' @ dquote @ name @ dquote @ CRLF
     @ ''Content-Type: '' @ content_type @ CRLF @ CRLF @ bytes @ CRLF
     @ ''--'' @ boundary @ ''--'' @ CRLF"

subsection \<open>The plugin: \<^verbatim>\<open>handleImagePaste\<close> and the vault \<^verbatim>\<open>create\<close> handler\<close>

record GitPasteSettings =
  githubSession :: string
  deleteLocalImage :: bool
  showNotices :: bool
  enableLogging :: bool
  logFilePath :: string

text \<open>The host's \<^verbatim>\<open>TFile\<close>: \<^verbatim>\<open>path\<close>, \<^verbatim>\<open>name\<close> (here \<open>tfile_name\<close>) and
  \<^verbatim>\<open>extension\<close>.\<close>

record TFile =
  path :: string
  tfile_name :: string
  extension :: string

text \<open>The editor of the active markdown view: the lines of the note and the cursor.\<close>

record Editor =
  note_lines :: "string list"
  cursor_line :: nat
  cursor_ch :: nat

datatype vault_entry = VaultFile string | VaultFolder

text \<open>
  The part of the host application the plugin acts on: the vault (path to entry), the
  paths handed to \<^verbatim>\<open>fileManager.trashFile\<close>, the editor of the active markdown view
  if there is one, the notices shown, and the requests sent.
\<close>

record App =
  vault :: "string \<rightharpoonup> vault_entry"
  trash :: "string list"
  editor :: "Editor option"
  shown :: "string list"
  sent :: "request list"

definition showNotice :: "GitPasteSettings \<Rightarrow> App \<Rightarrow> string \<Rightarrow> App" where
  "showNotice settings app msg =
     (if showNotices settings then app\<lparr>shown := shown app @ [''GitPaste: '' @ msg]\<rparr> else app)"

fun starts_with :: "string \<Rightarrow> string \<Rightarrow> bool" where
  "starts_with [] s = True"
| "starts_with (p # ps) [] = False"
| "starts_with (p # ps) (c # cs) = (p = c \<and> starts_with ps cs)"

text \<open>The index of the first occurrence of a literal pattern.\<close>

fun find_first :: "string \<Rightarrow> string \<Rightarrow> nat option" where
  "find_first pat [] = (if pat = [] then Some 0 else None)"
| "find_first pat (c # cs) =
     (if starts_with pat (c # cs) then Some 0 else map_option Suc (find_first pat cs))"

text \<open>
  The replacement text of \<^verbatim>\<open>String.prototype.replace\<close> for a pattern without capture
  groups: \<^verbatim>\<open>$$\<close> is a dollar sign, \<^verbatim>\<open>$&\<close> the match, \<^verbatim>\<open>$`\<close> the text before it and
  \<^verbatim>\<open>$'\<close> the text after it.
\<close>

fun substitution :: "string \<Rightarrow> string \<Rightarrow> string \<Rightarrow> string \<Rightarrow> string" where
  "substitution matched before after [] = []"
| "substitution matched before after [c] = [c]"
| "substitution matched before after (c # d # t) =
     (if c = CHR ''$'' \<and> d = CHR ''$'' then CHR ''$'' # substitution matched before after t
      else if c = CHR ''$'' \<and> d = CHR ''&'' then matched @ substitution matched before after t
      else if c = CHR ''$'' \<and> d = CHR 0x60 then before @ substitution matched before after t
      else if c = CHR ''$'' \<and> d = CHR 0x27 then after @ substitution matched before after t
      else c # substitution matched before after (d # t))"

text \<open>
  \<^verbatim>\<open>lineContent.replace(localMarkdownRegex, replacement)\<close>. The regular expression is
  \<^verbatim>\<open>![[<name>]]\<close> with every special character of the name escaped, so it matches
  that text literally.
\<close>

definition replace_first :: "string \<Rightarrow> string \<Rightarrow> string \<Rightarrow> string" where
  "replace_first pat replacement s =
     (case find_first pat s of
        None \<Rightarrow> s
      | Some i \<Rightarrow>
          take i s
          @ substitution pat (take i s) (drop (i + length pat) s) replacement
          @ drop (i + length pat) s)"

definition getLine :: "Editor \<Rightarrow> nat \<Rightarrow> string" where
  "getLine ed n = (if n < length (note_lines ed) then note_lines ed ! n else [])"

definition setLine :: "Editor \<Rightarrow> nat \<Rightarrow> string \<Rightarrow> Editor" where
  "setLine ed n t = ed\<lparr>note_lines := (note_lines ed)[n := t]\<rparr>"

text \<open>\<^verbatim>\<open>editor.replaceRange(text, cursor)\<close>: the text is inserted at the cursor.\<close>

definition replaceRange :: "Editor \<Rightarrow> string \<Rightarrow> Editor" where
  "replaceRange ed t =
     (let l = getLine ed (cursor_line ed)
      in setLine ed (cursor_line ed) (take (cursor_ch ed) l @ t @ drop (cursor_ch ed) l))"

definition logImageURL :: "GitPasteSettings \<Rightarrow> App \<Rightarrow> string \<Rightarrow> string \<Rightarrow> App" where
  "logImageURL settings app fileName link =
     (let p = logFilePath settings;
          app1 = (case vault app p of
                    None \<Rightarrow> app\<lparr>vault := (vault app)(p \<mapsto> VaultFile [])\<rparr>
                  | Some e \<Rightarrow> app)
      in case vault app1 p of
           Some (VaultFile currentContent) \<Rightarrow>
             app1\<lparr>vault := (vault app1)(p \<mapsto>
                VaultFile (currentContent @ [CHR 0x0A] @ ''- '' @ fileName @ '': '' @ link))\<rparr>
         | _ \<Rightarrow> app1)"

text \<open>The body of the \<^verbatim>\<open>try\<close> block of \<^verbatim>\<open>handleImagePaste\<close> after a successful upload.\<close>

definition insert_link :: "GitPasteSettings \<Rightarrow> App \<Rightarrow> File \<Rightarrow> string \<Rightarrow> App" where
  "insert_link settings app file filePath =
     (case editor app of
        None \<Rightarrow> app
      | Some ed \<Rightarrow>
          (let lineContent = getLine ed (cursor_line ed);
               pat = ''![['' @ file_name file @ '']]'';
               imageMarkdown = ''!['' @ file_name file @ '']('' @ filePath @ '')''
           in if find_first pat lineContent \<noteq> None
              then showNotice settings
                     (app\<lparr>editor := Some (setLine ed (cursor_line ed)
                                            (replace_first pat imageMarkdown lineContent))\<rparr>)
                     ''Replaced local image link with GitHub URL.''
              else showNotice settings
                     (app\<lparr>editor := Some (replaceRange ed imageMarkdown)\<rparr>)
                     ''Inserted GitHub image link.''))"

definition handleImagePaste :: "host \<Rightarrow> GitPasteSettings \<Rightarrow> App \<Rightarrow> File option \<Rightarrow> App" where
  "handleImagePaste h settings app file_arg =
     (case file_arg of
        None \<Rightarrow> app
      | Some file \<Rightarrow>
          if length (githubSession settings) < 1
          then showNotice settings app ''GitPaste: Please Add GitHub Session to use this.''
          else (let gh = GitHub_constructor (githubSession settings) None;
                    out = upload h gh (file_name file) (file_size file) file;
                    app1 = app\<lparr>sent := sent app @ requests out,
                               shown := shown app @ notices out\<rparr>
                in case result out of
                     Inl error \<Rightarrow>
                       showNotice settings app1
                         (message error @ ''. Please check the console for details.'')
                   | Inr res \<Rightarrow>
                       (let app2 = insert_link settings app1 file (githubLink res)
                        in if enableLogging settings
                           then logImageURL settings app2 (file_name file) (githubLink res)
                           else app2)))"

text \<open>\<^verbatim>\<open>file.extension.match(/png|jpg|jpeg|gif|bmp/i)\<close>: one of the words occurs in the
  extension, in any letter case.\<close>

definition image_extension :: "string \<Rightarrow> bool" where
  "image_extension e =
     (e \<noteq> [] \<and> list_ex (\<lambda>w. find_first w (map to_lower e) \<noteq> None)
                    [''png'', ''jpg'', ''jpeg'', ''gif'', ''bmp''])"

definition trashFile :: "App \<Rightarrow> TFile \<Rightarrow> App" where
  "trashFile app file =
     app\<lparr>vault := (vault app)(path file := None), trash := trash app @ [path file]\<rparr>"

text \<open>The handler registered on the vault's \<^verbatim>\<open>create\<close> event. When the created file
  cannot be read, \<^verbatim>\<open>readBinary\<close> rejects and the handler stops.\<close>

definition on_create :: "host \<Rightarrow> GitPasteSettings \<Rightarrow> App \<Rightarrow> TFile \<Rightarrow> App" where
  "on_create h settings app file =
     (if image_extension (extension file)
      then (case vault app (path file) of
              Some (VaultFile data) \<Rightarrow>
                (let uploadedFile = \<lparr>file_name = tfile_name file,
                                     file_size = int (length data),
                                     file_type = ''image/'' @ extension file,
                                     file_bytes = data\<rparr>;
                     app1 = handleImagePaste h settings app (Some uploadedFile)
                 in if deleteLocalImage settings
                    then showNotice settings (trashFile app1 file) ''Local Image is trashed''
                    else app1)
            | _ \<Rightarrow> app)
      else app)"

subsection \<open>Example hosts and inputs\<close>

definition example_policy :: UploadPolicy where
  "example_policy =
     \<lparr>upload_url = ''https://s3/upload'', upload_authenticity_token = ''t1'',
      asset_upload_url = ''/upload/assets/1'', asset_upload_authenticity_token = ''t2'',
      asset = \<lparr>asset_id = 1, asset_name = ''a.png'', asset_size = 10,
               asset_content_type = ''image/png'', href = ''https://x/assets/1'',
               original_name = ''a.png''\<rparr>,
      form = [(''key'', ''k''), (''acl'', [])], same_origin = False\<rparr>"

definition example_response :: "int \<Rightarrow> string option \<Rightarrow> response" where
  "example_response st loc =
     \<lparr>status = st, location = loc, text_body = ''reply'', json_id = Some 42,
      json_policy = example_policy\<rparr>"

definition example_host :: "int \<Rightarrow> int \<Rightarrow> string option \<Rightarrow> host" where
  "example_host policy_status upload_status loc =
     \<lparr>requestUrl = (\<lambda>rq.
         if url rq = ''https://github.com/upload/policies/assets''
         then Inr (example_response policy_status None)
         else if url rq = ''https://s3/upload''
         then Inr (example_response upload_status loc)
         else Inr (example_response 200 None)),
      payloadGenerator = (\<lambda>d. Inr (''payload'', ''bnd'')),
      mime_types = [''png'' \<mapsto> ''image/png''],
      random_token = ''abc''\<rparr>"

definition offline_host :: host where
  "offline_host =
     \<lparr>requestUrl = (\<lambda>rq. Inl (Error ''net::ERR_INTERNET_DISCONNECTED'')),
      payloadGenerator = (\<lambda>d. Inr (''payload'', ''bnd'')),
      mime_types = [''png'' \<mapsto> ''image/png''],
      random_token = ''abc''\<rparr>"

definition example_file :: File where
  "example_file =
     \<lparr>file_name = ''a.png'', file_size = 10, file_type = ''image/png'',
      file_bytes = [CHR 0x00, CHR 0x0D, CHR 0x0A, CHR ''-'', CHR ''-'', CHR ''-'', CHR ''-'',
                    CHR ''W'', CHR ''e'', CHR 0xFF]\<rparr>"

text \<open>The fields of the form body of the policy request.\<close>

definition policy_fields :: "int \<Rightarrow> string \<Rightarrow> int \<Rightarrow> string \<Rightarrow> (string \<times> string) list" where
  "policy_fields rid name size0 content_type =
     [(''repository_id'', Number_toString rid), (''name'', name),
      (''size'', Number_toString size0), (''content_type'', content_type)]"


definition metadata_host :: "int option \<Rightarrow> host" where
  "metadata_host i =
     \<lparr>requestUrl = (\<lambda>rq. Inr \<lparr>status = 200, location = None, text_body = [], json_id = i,
                                json_policy = example_policy\<rparr>),
      payloadGenerator = (\<lambda>d. Inr (''payload'', ''bnd'')),
      mime_types = [''png'' \<mapsto> ''image/png''],
      random_token = ''abc''\<rparr>"

text \<open>
  The content type in the words of the specification: the extension of the file name
  (without its dot, in lower case) looked up in the static table, with
  \<^verbatim>\<open>application/octet-stream\<close> when there is no extension or no entry.
\<close>

definition spec_content_type :: "(string \<rightharpoonup> string) \<Rightarrow> string \<Rightarrow> string" where
  "spec_content_type types name =
     (let e = map to_lower (drop 1 (extname name))
      in if e = [] then ''application/octet-stream''
         else (case types e of
                 None \<Rightarrow> ''application/octet-stream''
               | Some t \<Rightarrow> if t = [] then ''application/octet-stream'' else t))"

text \<open>A vault with one pasted image, the note that embeds it, and the settings with
  local deletion switched on.\<close>

definition delete_settings :: GitPasteSettings where
  "delete_settings =
     \<lparr>githubSession = ''session'', deleteLocalImage = True, showNotices = True,
      enableLogging = False, logFilePath = ''uploaded-images.md''\<rparr>"

definition pasted_image :: TFile where
  "pasted_image = \<lparr>path = ''a.png'', tfile_name = ''a.png'', extension = ''png''\<rparr>"

definition example_app :: App where
  "example_app =
     \<lparr>vault = [''a.png'' \<mapsto> VaultFile ''PNGDATA''], trash = [],
      editor = Some \<lparr>note_lines = [''![[a.png]]''], cursor_line = 0, cursor_ch = 10\<rparr>,
      shown = [], sent = []\<rparr>"

section \<open>Properties\<close>

subsection \<open>Repository-id resolution and the policy request\<close>

lemma getRepoId_requests:
  "requests (getRepoId h this) = (if truthy (repoId this) then [] else [repo_request this])"
  by (simp add: getRepoId_def rethrow_def split: sum.splits)

lemma getRepoId_notices: "notices (getRepoId h this) = []"
  by (simp add: getRepoId_def rethrow_def split: sum.splits)

lemma getRepoId_result_repoId:
  "result (getRepoId h this) = Inr v \<Longrightarrow> repoId (client (getRepoId h this)) = v"
  by (auto simp: getRepoId_def rethrow_def split: if_splits sum.splits)

lemma getRepoId_client:
  "client (getRepoId h this) = this\<lparr>repoId := repoId (client (getRepoId h this))\<rparr>"
  by (simp add: getRepoId_def rethrow_def split: sum.splits)

lemma getPolicy_resolved:
  assumes "result (getRepoId h this) = Inr (Some rid)"
  shows "getPolicy h this name size0 ct =
     (let p = rethrow ''Failed to get upload policy: ''
                (getPolicy_try h (client (getRepoId h this)) (policy_fields rid name size0 ct))
      in p\<lparr>requests := requests (getRepoId h this) @ requests p, notices := notices p\<rparr>)"
  using assms
  by (auto simp: getPolicy_def getRepoId_def rethrow_def policy_fields_def Let_def
      split: if_splits sum.splits)

lemma getPolicy_unresolved:
  assumes "\<forall>rid. result (getRepoId h this) \<noteq> Inr (Some rid)"
  shows "requests (getPolicy h this name size0 ct) = requests (getRepoId h this)"
    and "notices (getPolicy h this name size0 ct) = []"
    and "\<exists>e. result (getPolicy h this name size0 ct) = Inl e"
  using assms
  by (auto simp: getPolicy_def getRepoId_def rethrow_def policy_fields_def Let_def truthy_def
      split: if_splits sum.splits option.splits)

subsection \<open>A successful upload\<close>

lemma upload_after_policy:
  assumes "result (getRepoId h this) = Inr (Some rid)"
    and "requestUrl h (policy_request (client (getRepoId h this))
           (policy_fields rid name size0 (content_type_of h name))) = Inr r1"
    and "status r1 = 201"
  shows "upload h this name size0 file =
     (let u = rethrow ''Failed to upload file: ''
                (upload_try h (client (getRepoId h this)) (json_policy r1) file)
      in u\<lparr>requests := requests (getRepoId h this)
             @ policy_request (client (getRepoId h this))
                 (policy_fields rid name size0 (content_type_of h name)) # requests u\<rparr>)"
  using assms(2,3)
  by (simp add: upload_def getPolicy_resolved[OF assms(1)] getPolicy_try_def rethrow_def Let_def
      split: sum.splits)

text \<open>
  C1: when every step succeeds (the repository id is available, the policy request
  returns status 201 with policy \<open>P\<close>, the payload is generated, the multipart POST
  returns 201 or 204 with the \<^verbatim>\<open>Location\<close> header \<open>L\<close>, and the completion PUT
  returns), \<open>upload\<close> returns exactly the pair of \<open>href (asset P)\<close> and \<open>L\<close>.
\<close>

theorem upload_returns_links:
  assumes repo: "result (getRepoId h this) = Inr (Some rid)"
    and policy: "requestUrl h (policy_request (client (getRepoId h this))
                   (policy_fields rid name size0 (content_type_of h name))) = Inr r1"
      "status r1 = 201" "json_policy r1 = P"
    and payload: "payloadGenerator h (payload_data P file) = Inr (request_body, boundary_string)"
    and post: "requestUrl h (upload_request P request_body boundary_string) = Inr r2"
      "status r2 = 201 \<or> status r2 = 204" "location r2 = Some L"
    and put: "requestUrl h (complete_request (client (getRepoId h this)) P) = Inr r3"
  shows "result (upload h this name size0 file)
         = Inr \<lparr>githubLink = href (asset P), awsLink = L\<rparr>"
proof -
  have "result (upload_try h (client (getRepoId h this)) P file)
        = Inr \<lparr>githubLink = href (asset P), awsLink = L\<rparr>"
    using payload post put
    by (auto simp: upload_try_def markUploadComplete_def rethrow_def or_else_def Let_def)
  then show ?thesis
    using policy(3) by (simp add: upload_after_policy[OF repo policy(1,2)] rethrow_def Let_def)
qed

theorem upload_returns_links_witness:
  "result (upload (example_host 201 204 (Some ''https://s3/y'')) (GitHub_constructor ''session'' None)
             ''a.png'' 10 example_file)
   = Inr \<lparr>githubLink = ''https://x/assets/1'', awsLink = ''https://s3/y''\<rparr>"
  using upload_returns_links[of "example_host 201 204 (Some ''https://s3/y'')"
      "GitHub_constructor ''session'' None" 212613049 "''a.png''" 10
      "example_response 201 None" example_policy example_file "''payload''" "''bnd''"
      "example_response 204 (Some ''https://s3/y'')" "''https://s3/y''" "example_response 200 None"]
  by (simp add: example_host_def example_response_def example_policy_def GitHub_constructor_def
      getRepoId_def truthy_def or_else_def policy_request_def upload_request_def
      complete_request_def)

lemma digits_lt10: "n < 10 \<Longrightarrow> digits n = [digit_char n]"
  by (subst digits.simps) simp

lemma digits_ge10: "10 \<le> n \<Longrightarrow> digits n = digits (n div 10) @ [digit_char (n mod 10)]"
  by (subst digits.simps) simp

lemma Number_toString_500: "Number_toString 500 = ''500''"
  by (simp add: Number_toString_def digits_lt10 digits_ge10 digit_char_def)

lemma extname_a_png: "extname ''a.png'' = ''.png''"
  by (simp add: extname_def last_segment_def)

lemma content_type_a_png: "mime_types h ''png'' = Some ''image/png'' \<Longrightarrow> content_type_of h ''a.png'' = ''image/png''"
  by (simp add: content_type_of_def extname_def last_segment_def mime_lookup_def to_lower_def or_else_def)

lemma getRepoId_get: "list_all (\<lambda>rq. http_method rq = ''GET'') (requests (getRepoId h this))"
  by (simp add: getRepoId_requests repo_request_def)

text \<open>
  C10: when the multipart POST is accepted (201 or 204) and its response has no
  \<^verbatim>\<open>Location\<close> header, \<open>upload\<close> still succeeds, with the empty string as
  \<open>awsLink\<close>.
\<close>

theorem upload_location_absent:
  assumes repo: "result (getRepoId h this) = Inr (Some rid)"
    and policy: "requestUrl h (policy_request (client (getRepoId h this))
                   (policy_fields rid name size0 (content_type_of h name))) = Inr r1"
      "status r1 = 201" "json_policy r1 = P"
    and payload: "payloadGenerator h (payload_data P file) = Inr (request_body, boundary_string)"
    and post: "requestUrl h (upload_request P request_body boundary_string) = Inr r2"
      "status r2 = 201 \<or> status r2 = 204" "location r2 = None"
    and put: "requestUrl h (complete_request (client (getRepoId h this)) P) = Inr r3"
  shows "result (upload h this name size0 file)
         = Inr \<lparr>githubLink = href (asset P), awsLink = []\<rparr>"
proof -
  have "result (upload_try h (client (getRepoId h this)) P file)
        = Inr \<lparr>githubLink = href (asset P), awsLink = []\<rparr>"
    using payload post put
    by (auto simp: upload_try_def markUploadComplete_def rethrow_def or_else_def Let_def)
  then show ?thesis
    using policy(3) by (simp add: upload_after_policy[OF repo policy(1,2)] rethrow_def Let_def)
qed

theorem upload_location_absent_witness:
  "result (upload (example_host 201 201 None) (GitHub_constructor ''session'' None)
             ''a.png'' 10 example_file)
   = Inr \<lparr>githubLink = ''https://x/assets/1'', awsLink = []\<rparr>"
  using upload_location_absent[of "example_host 201 201 None"
      "GitHub_constructor ''session'' None" 212613049 "''a.png''" 10
      "example_response 201 None" example_policy example_file "''payload''" "''bnd''"
      "example_response 201 None" "example_response 200 None"]
  by (simp add: example_host_def example_response_def example_policy_def GitHub_constructor_def
      getRepoId_def truthy_def or_else_def policy_request_def upload_request_def
      complete_request_def)

text \<open>
  C4: when the multipart POST returns a status other than 201 and 204, \<open>upload\<close>
  fails with the error whose message carries that status, after exactly the policy
  request and the POST: no completion PUT is issued.
\<close>

theorem upload_status_rejected:
  assumes repo: "result (getRepoId h this) = Inr (Some rid)"
    and policy: "requestUrl h (policy_request (client (getRepoId h this))
                   (policy_fields rid name size0 (content_type_of h name))) = Inr r1"
      "status r1 = 201" "json_policy r1 = P"
    and payload: "payloadGenerator h (payload_data P file) = Inr (request_body, boundary_string)"
    and post: "requestUrl h (upload_request P request_body boundary_string) = Inr r2"
      "status r2 \<noteq> 201" "status r2 \<noteq> 204"
  shows "upload h this name size0 file =
           \<lparr>result = Inl (Error (''Failed to upload file: Error: Upload failed with status: ''
                                 @ Number_toString (status r2))),
            client = client (getRepoId h this),
            requests = requests (getRepoId h this)
              @ [policy_request (client (getRepoId h this))
                   (policy_fields rid name size0 (content_type_of h name)),
                 upload_request P request_body boundary_string],
            notices = []\<rparr>
         \<and> filter (\<lambda>rq. http_method rq = ''PUT'') (requests (upload h this name size0 file)) = []"
proof -
  let ?g = "client (getRepoId h this)"
  have ut: "upload_try h ?g P file =
      \<lparr>result = Inl (Error (''Upload failed with status: '' @ Number_toString (status r2))),
       client = ?g, requests = [upload_request P request_body boundary_string], notices = []\<rparr>"
    using payload post by (simp add: upload_try_def Let_def)
  have up: "upload h this name size0 file =
           \<lparr>result = Inl (Error (''Failed to upload file: Error: Upload failed with status: ''
                                 @ Number_toString (status r2))),
            client = ?g,
            requests = requests (getRepoId h this)
              @ [policy_request ?g (policy_fields rid name size0 (content_type_of h name)),
                 upload_request P request_body boundary_string],
            notices = []\<rparr>"
    using policy(3) by (simp add: upload_after_policy[OF repo policy(1,2)] ut rethrow_def Let_def)
  have "filter (\<lambda>rq. http_method rq = ''PUT'') (requests (getRepoId h this)) = []"
    by (simp add: getRepoId_requests repo_request_def)
  then show ?thesis
    by (simp add: up policy_request_def upload_request_def)
qed

theorem upload_status_rejected_witness:
  "upload (example_host 201 500 None) (GitHub_constructor ''session'' None) ''a.png'' 10 example_file =
     \<lparr>result = Inl (Error ''Failed to upload file: Error: Upload failed with status: 500''),
      client = GitHub_constructor ''session'' None,
      requests = [policy_request (GitHub_constructor ''session'' None)
                    (policy_fields 212613049 ''a.png'' 10 ''image/png''),
                  upload_request example_policy ''payload'' ''bnd''],
      notices = []\<rparr>"
  using upload_status_rejected[of "example_host 201 500 None"
      "GitHub_constructor ''session'' None" 212613049 "''a.png''" 10
      "example_response 201 None" example_policy example_file "''payload''" "''bnd''"
      "example_response 500 None"]
  by (simp add: example_host_def example_response_def example_policy_def GitHub_constructor_def
      getRepoId_def truthy_def or_else_def policy_request_def upload_request_def
      Number_toString_500 content_type_a_png)

subsection \<open>A rejected policy request\<close>

text \<open>
  C3: when the policy request returns a response whose status is not 201, \<open>upload\<close>
  fails, shows the session-expired notice, and issues no request after the policy
  request (no multipart POST, no completion PUT). A policy request that throws instead
  (a network error) fails without that notice.
\<close>

theorem policy_rejected_is_session_expired:
  assumes repo: "result (getRepoId h this) = Inr (Some rid)"
  shows "(\<forall>r. requestUrl h (policy_request (client (getRepoId h this))
                 (policy_fields rid name size0 (content_type_of h name))) = Inr r
              \<and> status r \<noteq> 201 \<longrightarrow>
            upload h this name size0 file =
              \<lparr>result = Inl (Error (''Failed to get upload policy: Error: Failed to get upload policy: ''
                                    @ text_body r)),
               client = client (getRepoId h this),
               requests = requests (getRepoId h this)
                 @ [policy_request (client (getRepoId h this))
                      (policy_fields rid name size0 (content_type_of h name))],
               notices = [session_expired_notice]\<rparr>)
       \<and> (\<forall>e. requestUrl h (policy_request (client (getRepoId h this))
                 (policy_fields rid name size0 (content_type_of h name))) = Inl e \<longrightarrow>
            upload h this name size0 file =
              \<lparr>result = Inl (Error (''Failed to get upload policy: '' @ to_string e)),
               client = client (getRepoId h this),
               requests = requests (getRepoId h this)
                 @ [policy_request (client (getRepoId h this))
                      (policy_fields rid name size0 (content_type_of h name))],
               notices = []\<rparr>)"
  by (simp add: upload_def getPolicy_resolved[OF repo] getPolicy_try_def rethrow_def Let_def)

theorem policy_rejected_is_session_expired_witness:
  "upload (example_host 403 204 None) (GitHub_constructor ''session'' None) ''a.png'' 10 example_file =
     \<lparr>result = Inl (Error ''Failed to get upload policy: Error: Failed to get upload policy: reply''),
      client = GitHub_constructor ''session'' None,
      requests = [policy_request (GitHub_constructor ''session'' None)
                    (policy_fields 212613049 ''a.png'' 10 ''image/png'')],
      notices = [session_expired_notice]\<rparr>
   \<and> upload offline_host (GitHub_constructor ''session'' None) ''a.png'' 10 example_file =
     \<lparr>result = Inl (Error ''Failed to get upload policy: Error: net::ERR_INTERNET_DISCONNECTED''),
      client = GitHub_constructor ''session'' None,
      requests = [policy_request (GitHub_constructor ''session'' None)
                    (policy_fields 212613049 ''a.png'' 10 ''image/png'')],
      notices = []\<rparr>"
  using policy_rejected_is_session_expired[of "example_host 403 204 None"
      "GitHub_constructor ''session'' None" 212613049 "''a.png''" 10 example_file]
    policy_rejected_is_session_expired[of offline_host
      "GitHub_constructor ''session'' None" 212613049 "''a.png''" 10 example_file]
  by (simp add: example_host_def offline_host_def example_response_def GitHub_constructor_def
      getRepoId_def truthy_def or_else_def policy_request_def content_type_a_png)

subsection \<open>The cached repository id\<close>

lemma rethrow_requests: "requests (rethrow p out) = requests out"
  by (simp add: rethrow_def split: sum.splits)

lemma rethrow_client: "client (rethrow p out) = client out"
  by (simp add: rethrow_def split: sum.splits)

lemma rethrow_notices: "notices (rethrow p out) = notices out"
  by (simp add: rethrow_def split: sum.splits)

lemma getPolicy_try_client: "client (getPolicy_try h g fs) = g"
  by (simp add: getPolicy_try_def split: sum.splits)

lemma markUploadComplete_client: "client (markUploadComplete h g P) = g"
  by (simp add: markUploadComplete_def rethrow_client split: sum.splits)

lemma upload_try_client: "client (upload_try h g P file) = g"
  by (simp add: upload_try_def Let_def markUploadComplete_client split: sum.splits prod.splits)

lemma getPolicy_client: "client (getPolicy h this name size0 ct) = client (getRepoId h this)"
proof (cases "truthy (repoId this)")
  case True
  then show ?thesis
    by (simp add: getPolicy_def getRepoId_def Let_def rethrow_client getPolicy_try_client
        split: sum.splits option.splits)
next
  case False
  then show ?thesis
    by (simp add: getPolicy_def Let_def rethrow_client getPolicy_try_client
        split: sum.splits option.splits)
qed

lemma upload_client: "client (upload h this name size0 file) = client (getRepoId h this)"
  by (simp add: upload_def Let_def getPolicy_client rethrow_client upload_try_client
      split: sum.splits)

lemma markUploadComplete_requests:
  "requests (markUploadComplete h g P) = [complete_request g P]"
  by (simp add: markUploadComplete_def rethrow_requests split: sum.splits)

lemma upload_try_no_get:
  "filter (\<lambda>rq. http_method rq = ''GET'') (requests (upload_try h g P file)) = []"
  by (simp add: upload_try_def markUploadComplete_requests Let_def upload_request_def
      complete_request_def split: sum.splits prod.splits)

lemma getPolicy_try_requests: "requests (getPolicy_try h g fs) = [policy_request g fs]"
  by (simp add: getPolicy_try_def split: sum.splits)

lemma getPolicy_gets:
  "filter (\<lambda>rq. http_method rq = ''GET'') (requests (getPolicy h this name size0 ct))
   = requests (getRepoId h this)"
proof (cases "truthy (repoId this)")
  case True
  then show ?thesis
    by (simp add: getPolicy_def getRepoId_def Let_def rethrow_requests getPolicy_try_requests
        policy_request_def split: sum.splits option.splits)
next
  case False
  then show ?thesis
    by (simp add: getPolicy_def Let_def rethrow_requests getPolicy_try_requests
        policy_request_def getRepoId_requests repo_request_def split: sum.splits option.splits)
qed

lemma upload_gets:
  "filter (\<lambda>rq. http_method rq = ''GET'') (requests (upload h this name size0 file))
   = requests (getRepoId h this)"
  by (simp add: upload_def Let_def getPolicy_gets rethrow_requests upload_try_no_get
      split: sum.splits)

text \<open>
  C5, as stated, fails for the id 0: the metadata endpoint answers with \<^verbatim>\<open>id: 0\<close>, the
  client caches it, and the next resolution on the same client sends the metadata
  request again, because \<^verbatim>\<open>if (this.repoId)\<close> tests truthiness.
\<close>

theorem repo_id_zero_is_resolved_again:
  "repoId (client (getRepoId (metadata_host (Some 0))
                     (GitHub_constructor ''session'' (Some ''owner/repo'')))) = Some 0
   \<and> requests (getRepoId (metadata_host (Some 0))
                 (client (getRepoId (metadata_host (Some 0))
                            (GitHub_constructor ''session'' (Some ''owner/repo'')))))
     = [repo_request (GitHub_constructor ''session'' (Some ''owner/repo''))]"
  by (simp add: getRepoId_def metadata_host_def GitHub_constructor_def truthy_def or_else_def
      rethrow_def repo_request_def)

text \<open>
  C5, amended: once a non-zero id is cached, every resolution returns that id, leaves
  the client unchanged and issues no request. A client constructed for the default
  repository (the argument omitted, empty or \<^verbatim>\<open>cli/cli\<close>) holds the id 212613049 from
  construction; resolution on it issues no request, and an \<open>upload\<close> on it issues no
  metadata request (the only GET of the client) and leaves the client as it was.
\<close>

theorem cached_repo_id_is_reused:
  "(\<forall>n. repoId this = Some n \<and> n \<noteq> 0 \<longrightarrow>
      getRepoId h this = \<lparr>result = Inr (Some n), client = this, requests = [], notices = []\<rparr>)
   \<and> (repo_arg \<in> {None, Some [], Some ''cli/cli''} \<longrightarrow>
        repoId (GitHub_constructor session repo_arg) = Some 212613049
        \<and> getRepoId h (GitHub_constructor session repo_arg)
            = \<lparr>result = Inr (Some 212613049), client = GitHub_constructor session repo_arg,
               requests = [], notices = []\<rparr>
        \<and> client (upload h (GitHub_constructor session repo_arg) name size0 file)
            = GitHub_constructor session repo_arg
        \<and> filter (\<lambda>rq. http_method rq = ''GET'')
             (requests (upload h (GitHub_constructor session repo_arg) name size0 file)) = [])"
proof -
  have a: "\<forall>n. repoId this = Some n \<and> n \<noteq> 0 \<longrightarrow>
      getRepoId h this = \<lparr>result = Inr (Some n), client = this, requests = [], notices = []\<rparr>"
    by (simp add: getRepoId_def truthy_def)
  have b: "repoId (GitHub_constructor session repo_arg) = Some 212613049"
    if "repo_arg \<in> {None, Some [], Some ''cli/cli''}"
    using that by (auto simp: GitHub_constructor_def or_else_def)
  have c: "getRepoId h (GitHub_constructor session repo_arg)
            = \<lparr>result = Inr (Some 212613049), client = GitHub_constructor session repo_arg,
               requests = [], notices = []\<rparr>"
    if "repo_arg \<in> {None, Some [], Some ''cli/cli''}"
    using b[OF that] by (simp add: getRepoId_def truthy_def)
  show ?thesis
    using a b c by (simp add: upload_client upload_gets)
qed

theorem cached_repo_id_is_reused_witness:
  "getRepoId (metadata_host (Some 0)) (client (getRepoId (metadata_host (Some 42))
       (GitHub_constructor ''session'' (Some ''owner/repo''))))
     = \<lparr>result = Inr (Some 42),
        client = client (getRepoId (metadata_host (Some 42))
                   (GitHub_constructor ''session'' (Some ''owner/repo''))),
        requests = [], notices = []\<rparr>
   \<and> repoId (GitHub_constructor ''session'' None) = Some 212613049
   \<and> filter (\<lambda>rq. http_method rq = ''GET'')
        (requests (upload (metadata_host (Some 0)) (GitHub_constructor ''session'' None)
                     ''a.png'' 10 example_file)) = []"
proof -
  let ?g = "client (getRepoId (metadata_host (Some 42))
                     (GitHub_constructor ''session'' (Some ''owner/repo'')))"
  have g: "repoId ?g = Some 42"
    by (simp add: getRepoId_def metadata_host_def GitHub_constructor_def truthy_def or_else_def
        rethrow_def)
  show ?thesis
    using cached_repo_id_is_reused[of ?g "metadata_host (Some 0)" None "''session''"
        "''a.png''" 10 example_file] g
    by simp
qed

subsection \<open>An absent repository id\<close>

text \<open>Whenever the metadata response has no \<^verbatim>\<open>id\<close>, resolution returns normally and
  \<open>upload\<close> fails with the \<^verbatim>\<open>TypeError\<close> of the next statement.\<close>

lemma absent_id_is_not_reported:
  assumes "\<not> truthy (repoId this)" "requestUrl h (repo_request this) = Inr r" "json_id r = None"
  shows "getRepoId h this = \<lparr>result = Inr None, client = this\<lparr>repoId := None\<rparr>,
                             requests = [repo_request this], notices = []\<rparr>"
    and "upload h this name size0 file =
           \<lparr>result = Inl undefined_toString, client = this\<lparr>repoId := None\<rparr>,
            requests = [repo_request this], notices = []\<rparr>"
  using assms
  by (simp_all add: upload_def getPolicy_def getRepoId_def rethrow_def Let_def)

text \<open>
  C8 at its failing input: a client for \<^verbatim>\<open>owner/repo\<close> and a metadata endpoint
  whose JSON has no \<^verbatim>\<open>id\<close>. \<open>getRepoId\<close> does not fail: it stores and returns
  \<^verbatim>\<open>undefined\<close>. The next statement of \<open>getPolicy\<close>, \<^verbatim>\<open>this.repoId!.toString()\<close>,
  throws a \<^verbatim>\<open>TypeError\<close>, and that is the failure of \<open>upload\<close>.
\<close>

theorem absent_repo_id_surfaces_as_type_error:
  "getRepoId (metadata_host None) (GitHub_constructor ''session'' (Some ''owner/repo''))
     = \<lparr>result = Inr None,
        client = GitHub_constructor ''session'' (Some ''owner/repo''),
        requests = [repo_request (GitHub_constructor ''session'' (Some ''owner/repo''))],
        notices = []\<rparr>
   \<and> upload (metadata_host None) (GitHub_constructor ''session'' (Some ''owner/repo''))
       ''a.png'' 10 example_file
     = \<lparr>result = Inl (TypeError ''Cannot read properties of undefined (reading 'toString')''),
        client = GitHub_constructor ''session'' (Some ''owner/repo''),
        requests = [repo_request (GitHub_constructor ''session'' (Some ''owner/repo''))],
        notices = []\<rparr>"
  by (simp add: upload_def getPolicy_def getRepoId_def metadata_host_def GitHub_constructor_def
      truthy_def or_else_def rethrow_def undefined_toString_def Let_def)

text \<open>
  The half of C8 that the code does satisfy: when the metadata request throws,
  resolution fails with \<^verbatim>\<open>Failed to get repo ID: ...\<close>.
\<close>

lemma getRepoId_throws:
  "requestUrl h (repo_request this) = Inl e \<Longrightarrow> \<not> truthy (repoId this) \<Longrightarrow>
   getRepoId h this = \<lparr>result = Inl (Error (''Failed to get repo ID: '' @ to_string e)),
                        client = this, requests = [repo_request this], notices = []\<rparr>"
  by (simp add: getRepoId_def rethrow_def)


subsection \<open>One policy per call\<close>

lemma upload_requests_resolved:
  assumes "result (getRepoId h this) = Inr (Some rid)"
  shows "\<exists>rest. requests (upload h this name size0 file)
           = requests (getRepoId h this)
             @ policy_request (client (getRepoId h this))
                 (policy_fields rid name size0 (content_type_of h name)) # rest"
  by (simp add: upload_def Let_def getPolicy_resolved[OF assms] rethrow_requests
      getPolicy_try_requests split: sum.splits)

lemma upload_unresolved:
  assumes "\<forall>rid. result (getRepoId h this) \<noteq> Inr (Some rid)"
  shows "requests (upload h this name size0 file) = requests (getRepoId h this)
         \<and> (\<exists>e. result (upload h this name size0 file) = Inl e)"
  using getPolicy_unresolved[OF assms, of name size0 "content_type_of h name"]
  by (auto simp: upload_def Let_def)

lemma upload_link_from_policy_response:
  assumes repo: "result (getRepoId h this) = Inr (Some rid)"
    and res: "result (upload h this name size0 file) = Inr res"
  shows "\<exists>r. requestUrl h (policy_request (client (getRepoId h this))
                 (policy_fields rid name size0 (content_type_of h name))) = Inr r
             \<and> githubLink res = href (asset (json_policy r))"
proof (cases "requestUrl h (policy_request (client (getRepoId h this))
                 (policy_fields rid name size0 (content_type_of h name)))")
  case (Inl e)
  then show ?thesis
    using res by (simp add: upload_def Let_def getPolicy_resolved[OF repo] getPolicy_try_def rethrow_def)
next
  case (Inr r)
  show ?thesis
  proof (cases "status r = 201")
    case True
    have "result (rethrow ''Failed to upload file: ''
            (upload_try h (client (getRepoId h this)) (json_policy r) file)) = Inr res"
      using res by (simp add: upload_after_policy[OF repo Inr True] Let_def)
    then have "githubLink res = href (asset (json_policy r))"
      by (auto simp: rethrow_def upload_try_def Let_def split: sum.splits prod.splits if_splits)
    then show ?thesis using Inr by simp
  next
    case False
    then show ?thesis
      using res Inr
      by (simp add: upload_def Let_def getPolicy_resolved[OF repo] getPolicy_try_def rethrow_def)
  qed
qed

text \<open>
  C9: an \<open>upload\<close> call leaves the client as it was except for \<open>repoId\<close>, which
  is what repository-id resolution left. When the repository id resolves, the call
  sends its own policy request, for this file's name, size and content type, before
  anything else, and the link it returns is the one of that request's response. When
  the repository id does not resolve, the call sends nothing beyond the metadata
  request and fails. No policy outlives a call: the client has no field for one.
\<close>

theorem policy_is_fetched_per_call:
  "client (upload h this name size0 file) = this\<lparr>repoId := repoId (client (getRepoId h this))\<rparr>
   \<and> (\<forall>rid. result (getRepoId h this) = Inr (Some rid) \<longrightarrow>
         (\<exists>rest. requests (upload h this name size0 file)
            = requests (getRepoId h this)
              @ policy_request (client (getRepoId h this))
                  (policy_fields rid name size0 (content_type_of h name)) # rest)
         \<and> (\<forall>res. result (upload h this name size0 file) = Inr res \<longrightarrow>
               (\<exists>r. requestUrl h (policy_request (client (getRepoId h this))
                        (policy_fields rid name size0 (content_type_of h name))) = Inr r
                    \<and> githubLink res = href (asset (json_policy r)))))
   \<and> ((\<forall>rid. result (getRepoId h this) \<noteq> Inr (Some rid)) \<longrightarrow>
         requests (upload h this name size0 file) = requests (getRepoId h this)
         \<and> (\<exists>e. result (upload h this name size0 file) = Inl e))"
proof -
  have "client (upload h this name size0 file) = this\<lparr>repoId := repoId (client (getRepoId h this))\<rparr>"
    using getRepoId_client[of h this] by (simp add: upload_client)
  then show ?thesis
    using upload_requests_resolved upload_unresolved upload_link_from_policy_response
    by blast
qed

theorem policy_is_fetched_per_call_witness:
  "client (upload (example_host 201 204 None) (GitHub_constructor ''session'' None)
             ''a.png'' 10 example_file) = GitHub_constructor ''session'' None
   \<and> (\<exists>rest. requests (upload (example_host 201 204 None) (GitHub_constructor ''session'' None)
                         ''a.png'' 10 example_file)
          = policy_request (GitHub_constructor ''session'' None)
              (policy_fields 212613049 ''a.png'' 10 ''image/png'') # rest)
   \<and> requests (upload (metadata_host None) (GitHub_constructor ''session'' (Some ''owner/repo''))
                 ''a.png'' 10 example_file)
     = [repo_request (GitHub_constructor ''session'' (Some ''owner/repo''))]"
proof -
  let ?h = "example_host 201 204 None"
  let ?g = "GitHub_constructor ''session'' None"
  let ?h' = "metadata_host None"
  let ?g' = "GitHub_constructor ''session'' (Some ''owner/repo'')"
  have repo: "result (getRepoId ?h ?g) = Inr (Some 212613049)"
    by (simp add: GitHub_constructor_def getRepoId_def truthy_def or_else_def)
  have g: "client (getRepoId ?h ?g) = ?g" "requests (getRepoId ?h ?g) = []"
    by (simp_all add: GitHub_constructor_def getRepoId_def truthy_def or_else_def)
  have gid: "?g\<lparr>repoId := repoId ?g\<rparr> = ?g" by simp
  have ct: "content_type_of ?h ''a.png'' = ''image/png''"
    by (simp add: content_type_a_png example_host_def)
  have repo': "\<forall>rid. result (getRepoId ?h' ?g') \<noteq> Inr (Some rid)"
    by (simp add: GitHub_constructor_def getRepoId_def truthy_def or_else_def metadata_host_def
        rethrow_def)
  have g': "requests (getRepoId ?h' ?g') = [repo_request ?g']"
    by (simp add: GitHub_constructor_def getRepoId_def truthy_def or_else_def metadata_host_def
        rethrow_def)
  from policy_is_fetched_per_call[of ?h ?g "''a.png''" 10 example_file]
    policy_is_fetched_per_call[of ?h' ?g' "''a.png''" 10 example_file] repo repo'
  show ?thesis
    unfolding g g' ct gid by auto
qed

subsection \<open>The body of the policy request\<close>

lemma last_segment_no_slash: "CHR ''/'' \<notin> set (last_segment p)"
  by (auto simp: last_segment_def dest: set_takeWhileD)

lemma extname_shape:
  "extname p = [] \<or> (\<exists>a. extname p = CHR ''.'' # a \<and> CHR ''.'' \<notin> set a \<and> CHR ''/'' \<notin> set a)"
proof -
  let ?a = "rev (takeWhile (\<lambda>c. c \<noteq> CHR ''.'') (rev (last_segment p)))"
  have 1: "CHR ''.'' \<notin> set ?a" by (auto dest: set_takeWhileD)
  have 2: "CHR ''/'' \<notin> set ?a" using last_segment_no_slash[of p] by (auto dest: set_takeWhileD)
  show ?thesis using 1 2 by (auto simp: extname_def Let_def)
qed

lemma last_segment_plain:
  assumes "CHR ''/'' \<notin> set s" 
  shows "last_segment s = s"
proof -
  have d: "dropWhile (\<lambda>c. c = CHR ''/'') (rev s) = rev s"
    using assms by (cases "rev s") auto
  have t: "takeWhile (\<lambda>c. c \<noteq> CHR ''/'') (rev s) = rev s"
    by (rule takeWhile_eq_all_conv[THEN iffD2]) (use assms in auto)
  show ?thesis unfolding last_segment_def d t by simp
qed

lemma extname_x_dot:
  assumes "CHR ''.'' \<notin> set a" "CHR ''/'' \<notin> set a"
  shows "extname (''x.'' @ CHR ''.'' # a) = CHR ''.'' # a"
proof -
  have seg: "last_segment (''x.'' @ CHR ''.'' # a) = ''x.'' @ CHR ''.'' # a"
    using assms(2) by (intro last_segment_plain) simp
  have "takeWhile (\<lambda>c. c \<noteq> CHR ''.'') (rev a @ ''..x'') = rev a"
    using assms(1) by (subst takeWhile_append2) auto
  then have after: "rev (takeWhile (\<lambda>c. c \<noteq> CHR ''.'') (rev (''x.'' @ CHR ''.'' # a))) = a"
    by simp
  show ?thesis
    unfolding extname_def seg Let_def after by simp
qed

lemma content_type_of_spec: "content_type_of h name = spec_content_type (mime_types h) name"
proof -
  consider "extname name = []"
    | a where "extname name = CHR ''.'' # a" "CHR ''.'' \<notin> set a" "CHR ''/'' \<notin> set a"
    using extname_shape[of name] by blast
  then show ?thesis
  proof cases
    case 1
    then show ?thesis
      by (simp add: content_type_of_def spec_content_type_def mime_lookup_def or_else_def)
  next
    case 2
    have "extname (''x.'' @ extname name) = CHR ''.'' # a"
      using extname_x_dot[OF 2(2,3)] 2(1) by simp
    then show ?thesis
      using 2(1)
      by (simp add: content_type_of_def spec_content_type_def mime_lookup_def or_else_def Let_def
          split: option.splits)
  qed
qed

lemma Number_toString_10: "Number_toString 10 = ''10''"
  by (simp add: Number_toString_def digits_lt10 digits_ge10 digit_char_def)

lemma Number_toString_default_id: "Number_toString 212613049 = ''212613049''"
  by (simp add: Number_toString_def digits_lt10 digits_ge10 digit_char_def)

lemma spec_content_type_png: "types ''png'' = Some ''image/png'' \<Longrightarrow> spec_content_type types ''a.png'' = ''image/png''"
  by (simp add: spec_content_type_def extname_a_png to_lower_def)

lemma spec_content_type_unknown: "spec_content_type [''png'' \<mapsto> ''image/png''] ''notes.xyz'' = ''application/octet-stream''"
  by (simp add: spec_content_type_def extname_def last_segment_def to_lower_def)

lemma urlencode_examples:
  "urlencode ''a.png'' = ''a.png''" "urlencode ''image/png'' = ''image%2Fpng''"
  "urlencode ''application/octet-stream'' = ''application%2Foctet-stream''"
  "urlencode ''notes.xyz'' = ''notes.xyz''"
  by (simp_all add: urlencode_def urlencode_byte_def url_safe_def hex_char_def)

text \<open>
  C6: whenever the repository id resolves, the first request after resolution is the
  POST to the policy endpoint, and its body is the form encoding of exactly the four
  fields \<^verbatim>\<open>repository_id\<close>, \<^verbatim>\<open>name\<close>, \<^verbatim>\<open>size\<close> and \<^verbatim>\<open>content_type\<close>, the last
  being the table entry of the name's extension or \<^verbatim>\<open>application/octet-stream\<close>.
\<close>

theorem policy_request_body:
  assumes "result (getRepoId h this) = Inr (Some rid)"
  shows "\<exists>rq rest.
           requests (upload h this name size0 file) = requests (getRepoId h this) @ rq # rest
           \<and> url rq = ''https://github.com/upload/policies/assets''
           \<and> http_method rq = ''POST''
           \<and> body rq = Some (URLSearchParams_toString
                               [(''repository_id'', Number_toString rid), (''name'', name),
                                (''size'', Number_toString size0),
                                (''content_type'', spec_content_type (mime_types h) name)])"
proof -
  obtain rest where "requests (upload h this name size0 file)
           = requests (getRepoId h this)
             @ policy_request (client (getRepoId h this))
                 (policy_fields rid name size0 (content_type_of h name)) # rest"
    using upload_requests_resolved[OF assms] by blast
  then show ?thesis
    by (simp add: policy_request_def policy_fields_def content_type_of_spec)
qed

lemma urlencode_plain: "list_all url_safe s \<Longrightarrow> urlencode s = s"
  by (induction s) (simp_all add: urlencode_def urlencode_byte_def)

theorem policy_request_body_witness:
  "(\<exists>rq rest.
      requests (upload (example_host 403 204 None) (GitHub_constructor ''session'' None)
                  ''a.png'' 10 example_file) = rq # rest
      \<and> body rq = Some ''repository_id=212613049&name=a.png&size=10&content_type=image%2Fpng'')
   \<and> (\<exists>rq rest.
      requests (upload (example_host 403 204 None) (GitHub_constructor ''session'' None)
                  ''notes.xyz'' 10 example_file) = rq # rest
      \<and> body rq = Some ''repository_id=212613049&name=notes.xyz&size=10&content_type=application%2Foctet-stream'')"
proof -
  let ?h = "example_host 403 204 None"
  let ?g = "GitHub_constructor ''session'' None"
  have repo: "result (getRepoId ?h ?g) = Inr (Some 212613049)"
    by (simp add: GitHub_constructor_def getRepoId_def truthy_def or_else_def)
  have g: "requests (getRepoId ?h ?g) = []"
    by (simp add: GitHub_constructor_def getRepoId_def truthy_def or_else_def)
  have types: "mime_types ?h = [''png'' \<mapsto> ''image/png'']"
    by (simp add: example_host_def)
  have ct: "spec_content_type [''png'' \<mapsto> ''image/png''] ''a.png'' = ''image/png''"
    by (simp add: spec_content_type_png)
  have enc: "urlencode ''repository_id'' = ''repository_id''" "urlencode ''name'' = ''name''"
    "urlencode ''size'' = ''size''" "urlencode ''content_type'' = ''content_type''"
    "urlencode ''212613049'' = ''212613049''" "urlencode ''10'' = ''10''"
    by (simp_all add: urlencode_plain url_safe_def)
  have body1: "URLSearchParams_toString
                 [(''repository_id'', Number_toString 212613049), (''name'', ''a.png''),
                  (''size'', Number_toString 10), (''content_type'', ''image/png'')]
               = ''repository_id=212613049&name=a.png&size=10&content_type=image%2Fpng''"
    by (simp add: URLSearchParams_toString_def Number_toString_10 Number_toString_default_id
        enc urlencode_examples)
  have body2: "URLSearchParams_toString
                 [(''repository_id'', Number_toString 212613049), (''name'', ''notes.xyz''),
                  (''size'', Number_toString 10), (''content_type'', ''application/octet-stream'')]
               = ''repository_id=212613049&name=notes.xyz&size=10&content_type=application%2Foctet-stream''"
    by (simp add: URLSearchParams_toString_def Number_toString_10 Number_toString_default_id
        enc urlencode_examples)
  from policy_request_body[OF repo, of "''a.png''" 10 example_file]
    policy_request_body[OF repo, of "''notes.xyz''" 10 example_file]
  show ?thesis
    unfolding g types ct spec_content_type_unknown body1 body2 by auto
qed


subsection \<open>The multipart body\<close>

lemma total_length: "foldl (\<lambda>sum buf. sum + length buf) n bufs = n + length (concat bufs)"
  by (induction bufs arbitrary: n) auto

lemma copy_buffers_concat:
  "offset + length (concat bufs) \<le> length arr \<Longrightarrow>
   copy_buffers bufs arr offset
   = Inr (take offset arr @ concat bufs @ drop (offset + length (concat bufs)) arr)"
proof (induction bufs arbitrary: arr offset)
  case Nil
  then show ?case by simp
next
  case (Cons buf bufs)
  let ?arr' = "take offset arr @ buf @ drop (offset + length buf) arr"
  have fits: "\<not> offset + length buf > length arr" using Cons.prems by simp
  have len: "length ?arr' = length arr" using Cons.prems by simp
  have step: "copy_buffers (buf # bufs) arr offset = copy_buffers bufs ?arr' (offset + length buf)"
    using fits by (simp add: Uint8Array_set_def)
  have "offset + length buf + length (concat bufs) \<le> length ?arr'"
    using Cons.prems len by simp
  from Cons.IH[OF this]
  have "copy_buffers bufs ?arr' (offset + length buf)
        = Inr (take (offset + length buf) ?arr' @ concat bufs
               @ drop (offset + length buf + length (concat bufs)) ?arr')" .
  moreover have "take (offset + length buf) ?arr' = take offset arr @ buf"
    using Cons.prems by simp
  moreover have "drop (offset + length buf + length (concat bufs)) ?arr'
                 = drop (offset + length buf + length (concat bufs)) arr"
    using Cons.prems by (simp add: ac_simps)
  ultimately show ?case
    using step by (simp add: add.assoc)
qed

lemma multipart_body_concat:
  "multipart_body boundary form_fields name content_type bytes
   = Inr (concat (multipart_parts boundary form_fields name content_type bytes))"
  by (simp add: multipart_body_def Let_def total_length copy_buffers_concat)

lemma field_part_spec: "field_part boundary = spec_field boundary"
  by (rule ext) (simp add: field_part_def spec_field_def)

lemma multipart_parts_spec:
  "concat (multipart_parts boundary form_fields name content_type bytes)
   = spec_multipart boundary (Object_entries form_fields) name content_type bytes"
  by (simp add: multipart_parts_def spec_multipart_def field_part_spec)

lemma Object_entries_insertion_order:
  "list_all (\<lambda>kv. \<not> is_array_index (fst kv)) obj \<Longrightarrow> Object_entries obj = obj"
  by (simp add: Object_entries_def list_all_iff filter_empty_conv)

lemma multipart_body_spec:
  "multipart_body boundary form_fields name content_type bytes
   = Inr (spec_multipart boundary (Object_entries form_fields) name content_type bytes)"
  by (simp add: multipart_body_concat multipart_parts_spec)

text \<open>
  C2, as stated, fails when a field name is an array index: for the form
  \<^verbatim>\<open>{"b": "x", "1": "y"}\<close> the part of \<^verbatim>\<open>1\<close> comes first, because
  \<^verbatim>\<open>Object.entries\<close> enumerates integer-like keys before the others.
\<close>

theorem multipart_fields_not_in_insertion_order:
  "multipart_body ''B'' [(''b'', ''x''), (''1'', ''y'')] ''f'' ''t'' ''d''
     = Inr (spec_multipart ''B'' [(''1'', ''y''), (''b'', ''x'')] ''f'' ''t'' ''d'')
   \<and> multipart_body ''B'' [(''b'', ''x''), (''1'', ''y'')] ''f'' ''t'' ''d''
     \<noteq> Inr (spec_multipart ''B'' [(''b'', ''x''), (''1'', ''y'')] ''f'' ''t'' ''d'')"
  by (simp add: multipart_body_spec Object_entries_def is_array_index_def is_digit_def
      spec_multipart_def spec_field_def)

lemma getPolicy_part_000_resolved:
  assumes "result (getRepoId h this) = Inr (Some rid)"
    and "requestUrl h (policy_request (client (getRepoId h this))
           (policy_fields rid name size0 ct)) = Inr r1"
  shows "getPolicy_part_000 h this name size0 ct =
     \<lparr>result = Inr (json_policy r1), client = client (getRepoId h this),
      requests = requests (getRepoId h this)
        @ [policy_request (client (getRepoId h this)) (policy_fields rid name size0 ct)],
      notices = []\<rparr>"
  using assms
  by (auto simp: getPolicy_part_000_def getRepoId_def rethrow_def policy_fields_def Let_def
      split: if_splits sum.splits)

lemma upload_try_part_000_requests:
  "\<exists>rest. requests (upload_try_part_000 h g P name ct bytes)
     = upload_request_part_000 g P (boundary_of h)
         (spec_multipart (boundary_of h) (Object_entries (form P)) name ct bytes) # rest"
  by (simp add: upload_try_part_000_def multipart_body_spec Let_def split: sum.splits)

text \<open>
  C2, amended: once the policy \<open>P\<close> is obtained, the request that follows the policy
  request is the POST to \<open>upload_url P\<close>, and its body is, byte for byte, the
  multipart format of the specification over the fields of \<open>form P\<close> in the order of
  \<^verbatim>\<open>Object.entries\<close> (array-index names first, ascending, then the others in insertion
  order), with the file's bytes embedded unchanged. When no field name is an array
  index, that order is the insertion order.
\<close>

theorem multipart_body_sent:
  assumes repo: "result (getRepoId h this) = Inr (Some rid)"
    and policy: "requestUrl h (policy_request (client (getRepoId h this))
                   (policy_fields rid name size0 (content_type_of h name))) = Inr r1"
      "json_policy r1 = P"
  shows "\<exists>rq rest.
           requests (upload_part_000 h this name size0 file)
             = requests (getRepoId h this)
               @ [policy_request (client (getRepoId h this))
                    (policy_fields rid name size0 (content_type_of h name)), rq] @ rest
           \<and> url rq = upload_url P \<and> http_method rq = ''POST''
           \<and> body rq = Some (spec_multipart (boundary_of h) (Object_entries (form P)) name
                               (content_type_of h name) (file_bytes file))
           \<and> (list_all (\<lambda>kv. \<not> is_array_index (fst kv)) (form P) \<longrightarrow>
                body rq = Some (spec_multipart (boundary_of h) (form P) name
                                  (content_type_of h name) (file_bytes file)))"
proof -
  let ?g = "client (getRepoId h this)"
  let ?ct = "content_type_of h name"
  let ?rq = "upload_request_part_000 ?g P (boundary_of h)
               (spec_multipart (boundary_of h) (Object_entries (form P)) name ?ct (file_bytes file))"
  obtain rest where rest: "requests (upload_try_part_000 h ?g P name ?ct (file_bytes file)) = ?rq # rest"
    using upload_try_part_000_requests by blast
  have "requests (upload_part_000 h this name size0 file)
        = requests (getRepoId h this)
          @ [policy_request ?g (policy_fields rid name size0 ?ct), ?rq] @ rest"
    using policy(2) rest
    by (simp add: upload_part_000_def Let_def getPolicy_part_000_resolved[OF repo policy(1)]
        rethrow_requests)
  moreover have "url ?rq = upload_url P" "http_method ?rq = ''POST''"
    "body ?rq = Some (spec_multipart (boundary_of h) (Object_entries (form P)) name ?ct (file_bytes file))"
    by (simp_all add: upload_request_part_000_def)
  ultimately show ?thesis
    by (metis Object_entries_insertion_order)
qed

theorem multipart_body_sent_witness:
  "\<exists>rq rest.
     requests (upload_part_000 (example_host 201 204 None) (GitHub_constructor ''session'' None)
                 ''a.png'' 10 example_file)
       = [policy_request (GitHub_constructor ''session'' None)
            (policy_fields 212613049 ''a.png'' 10 ''image/png''), rq] @ rest
     \<and> url rq = ''https://s3/upload''
     \<and> body rq = Some (spec_multipart ''----WebKitFormBoundaryabc'' [(''key'', ''k''), (''acl'', [])]
                         ''a.png'' ''image/png''
                         [CHR 0x00, CHR 0x0D, CHR 0x0A, CHR ''-'', CHR ''-'', CHR ''-'', CHR ''-'',
                          CHR ''W'', CHR ''e'', CHR 0xFF])"
proof -
  let ?h = "example_host 201 204 None"
  let ?g = "GitHub_constructor ''session'' None"
  have repo: "result (getRepoId ?h ?g) = Inr (Some 212613049)"
    by (simp add: GitHub_constructor_def getRepoId_def truthy_def or_else_def)
  have g: "client (getRepoId ?h ?g) = ?g" "requests (getRepoId ?h ?g) = []"
    by (simp_all add: GitHub_constructor_def getRepoId_def truthy_def or_else_def)
  have ct: "content_type_of ?h ''a.png'' = ''image/png''"
    by (simp add: content_type_a_png example_host_def)
  have pol: "requestUrl ?h (policy_request (client (getRepoId ?h ?g))
               (policy_fields 212613049 ''a.png'' 10 (content_type_of ?h ''a.png'')))
             = Inr (example_response 201 None)"
    by (simp add: example_host_def policy_request_def)
  have P: "json_policy (example_response 201 None) = example_policy"
    by (simp add: example_response_def)
  have fields: "form example_policy = [(''key'', ''k''), (''acl'', [])]"
    "upload_url example_policy = ''https://s3/upload''"
    by (simp_all add: example_policy_def)
  have plain: "list_all (\<lambda>kv. \<not> is_array_index (fst kv)) (form example_policy)"
    by (simp add: fields is_array_index_def is_digit_def)
  have b: "boundary_of ?h = ''----WebKitFormBoundaryabc''"
    by (simp add: boundary_of_def example_host_def)
  have bytes: "file_bytes example_file
      = [CHR 0x00, CHR 0x0D, CHR 0x0A, CHR ''-'', CHR ''-'', CHR ''-'', CHR ''-'',
         CHR ''W'', CHR ''e'', CHR 0xFF]"
    by (simp add: example_file_def)
  from multipart_body_sent[OF repo pol P, of example_file] plain
  show ?thesis
    unfolding g ct fields b bytes by auto
qed

subsection \<open>A failed upload and the local image\<close>

lemma failed_upload_offline:
  "upload offline_host (GitHub_constructor ''session'' None) ''a.png'' 7 file0 =
     \<lparr>result = Inl (Error ''Failed to get upload policy: Error: net::ERR_INTERNET_DISCONNECTED''),
      client = GitHub_constructor ''session'' None,
      requests = [policy_request (GitHub_constructor ''session'' None)
                    (policy_fields 212613049 ''a.png'' 7 ''image/png'')],
      notices = []\<rparr>"
  by (simp add: upload_def getPolicy_def getPolicy_try_def rethrow_def Let_def offline_host_def
      GitHub_constructor_def truthy_def or_else_def policy_fields_def content_type_a_png)

lemma image_extension_png: "image_extension ''png''"
  by (simp add: image_extension_def to_lower_def)

text \<open>After any failed upload \<open>handleImagePaste\<close> leaves the vault, the trash and the
  note as they were and sends nothing beyond the requests of that one upload; the
  \<^verbatim>\<open>create\<close> handler then trashes the file whenever local deletion is switched on.\<close>

lemma showNotice_keeps:
  "vault (showNotice settings app msg) = vault app"
  "trash (showNotice settings app msg) = trash app"
  "editor (showNotice settings app msg) = editor app"
  by (simp_all add: showNotice_def)

lemma handleImagePaste_failure:
  assumes "result (upload h (GitHub_constructor (githubSession settings) None)
                     (file_name f) (file_size f) f) = Inl e"
  shows "vault (handleImagePaste h settings app (Some f)) = vault app
         \<and> trash (handleImagePaste h settings app (Some f)) = trash app
         \<and> editor (handleImagePaste h settings app (Some f)) = editor app
         \<and> sent (handleImagePaste h settings app (Some f))
           = sent app @ (if length (githubSession settings) < 1 then []
                         else requests (upload h (GitHub_constructor (githubSession settings) None)
                                          (file_name f) (file_size f) f))"
  using assms by (simp add: handleImagePaste_def Let_def showNotice_keeps showNotice_def)

lemma on_create_trashes_after_failure:
  assumes "deleteLocalImage settings" "image_extension (extension tf)"
    and "vault app (path tf) = Some (VaultFile d)"
    and "result (upload h (GitHub_constructor (githubSession settings) None)
                   (tfile_name tf) (int (length d))
                   \<lparr>file_name = tfile_name tf, file_size = int (length d),
                    file_type = ''image/'' @ extension tf, file_bytes = d\<rparr>) = Inl e"
  shows "vault (on_create h settings app tf) (path tf) = None
         \<and> trash (on_create h settings app tf) = trash app @ [path tf]
         \<and> editor (on_create h settings app tf) = editor app"
proof -
  let ?f = "\<lparr>file_name = tfile_name tf, file_size = int (length d),
             file_type = ''image/'' @ extension tf, file_bytes = d\<rparr>"
  have "result (upload h (GitHub_constructor (githubSession settings) None)
                     (file_name ?f) (file_size ?f) ?f) = Inl e"
    using assms(4) by simp
  from handleImagePaste_failure[OF this, of app]
  show ?thesis
    using assms(1-3) by (simp add: on_create_def Let_def showNotice_keeps trashFile_def)
qed

text \<open>
  C7 at its failing input: local deletion is switched on, the image \<^verbatim>\<open>a.png\<close> is
  created in the vault, and the network is down, so the upload fails at the policy
  request. The note is left as it was and nothing is retried, but the \<^verbatim>\<open>create\<close>
  handler still moves the local image to the trash: \<open>handleImagePaste\<close> catches the
  failure and returns normally, and the handler does not know the upload failed.
\<close>

theorem failed_upload_still_trashes_local_image:
  "result (upload offline_host (GitHub_constructor (githubSession delete_settings) None) ''a.png'' 7
             \<lparr>file_name = ''a.png'', file_size = 7, file_type = ''image/png'',
              file_bytes = ''PNGDATA''\<rparr>)
     = Inl (Error ''Failed to get upload policy: Error: net::ERR_INTERNET_DISCONNECTED'')
   \<and> vault example_app ''a.png'' = Some (VaultFile ''PNGDATA'')
   \<and> vault (on_create offline_host delete_settings example_app pasted_image) ''a.png'' = None
   \<and> trash (on_create offline_host delete_settings example_app pasted_image) = [''a.png'']
   \<and> editor (on_create offline_host delete_settings example_app pasted_image) = editor example_app
   \<and> shown (on_create offline_host delete_settings example_app pasted_image)
     = [''GitPaste: Failed to get upload policy: Error: net::ERR_INTERNET_DISCONNECTED. Please check the console for details.'',
        ''GitPaste: Local Image is trashed'']"
  by (simp add: on_create_def handleImagePaste_def showNotice_def trashFile_def Let_def
      delete_settings_def pasted_image_def example_app_def image_extension_png
      failed_upload_offline)

end
